theory Spec2Isabelle
  imports Main "HOL-Library.Char_ord" "HOL-Library.List_Lexorder" "HOL-Library.Multiset"
begin

section \<open>Task manager CLI: the task store and its queries (main.py)\<close>

text \<open>
  The program keeps a list of task dictionaries in one JSON file. Every command loads the
  file, works on the list and, when it changed something, writes the whole list back.

  Conventions of the embedding.
  \<^item> A task dictionary is a record with the nine keys \<open>add_task\<close> creates. The key
    \<open>"id"\<close> is the field \<open>id'\<close> (\<open>id\<close> is HOL's identity function).
  \<^item> Strings are \<open>string\<close>, one \<open>char\<close> for each character of the text; string
    comparison is the lexicographic order on characters.
  \<^item> \<open>str.lower\<close> depends on the case tables of the Python runtime, which are not part of
    the program. On text that is all ASCII it is the ASCII lowercasing, written out here.
    On any other text it is the parameter \<open>unicode_lower\<close>, the first argument of every
    function that lowercases; nothing is assumed about it.
  \<^item> Python's \<open>None\<close> for an optional argument or a nullable key is \<open>None\<close> of an option
    type. A parameter that shares its name with a key of the dictionary carries the
    suffix \<open>_arg\<close>.
  \<^item> What the program reads from its environment is an explicit argument: the file
    system (a function from paths to file contents), the string \<open>str(uuid.uuid4())\<close>
    (\<open>uuid4\<close>) and the string \<open>datetime.now().strftime(...)\<close> (\<open>now\<close>).
  \<^item> \<open>print\<close> is a list of output items, returned in the order printed.
  \<^item> File operations are taken to succeed: no I/O error is raised while reading or writing.
  \<^item> The file is taken to hold a list of task dictionaries with string values whenever it
    is valid JSON. \<open>view_task\<close> and the argument parsing of \<open>main\<close> are not modelled.
\<close>

subsection \<open>Constants\<close>

definition DEFAULT_TASKS_FILE :: string where
  "DEFAULT_TASKS_FILE = ''tasks.json''"

definition PRIORITIES :: "string list" where
  "PRIORITIES = [''low'', ''medium'', ''high'', ''critical'']"

definition STATUSES :: "string list" where
  "STATUSES = [''pending'', ''in_progress'', ''completed'', ''cancelled'']"

subsection \<open>Strings\<close>

text \<open>
  \<open>str.lower()\<close>. A character is ASCII when its code is below 128, that is when its
  highest bit is clear. On ASCII text the 26 capital letters map to their small letters
  and every other character stays. Text with a character outside ASCII is lowercased by
  the case tables of the runtime, the parameter \<open>unicode_lower\<close>.
\<close>

definition is_ascii :: "char \<Rightarrow> bool" where
  "is_ascii c = (\<not> digit7 c)"

definition lower_char :: "char \<Rightarrow> char" where
  "lower_char c =
     (case map_of (zip ''ABCDEFGHIJKLMNOPQRSTUVWXYZ'' ''abcdefghijklmnopqrstuvwxyz'') c of
        None \<Rightarrow> c
      | Some d \<Rightarrow> d)"

definition lower :: "(string \<Rightarrow> string) \<Rightarrow> string \<Rightarrow> string" where
  "lower unicode_lower s =
     (if list_all is_ascii s then map lower_char s else unicode_lower s)"

text \<open>\<open>sep.join(xs)\<close>.\<close>

fun join :: "string \<Rightarrow> string list \<Rightarrow> string" where
  "join sep [] = []"
| "join sep [x] = x"
| "join sep (x # y # ys) = x @ sep @ join sep (y # ys)"

subsection \<open>Tasks, files and output\<close>

record task =
  id' :: string
  title :: string
  description :: string
  priority :: string
  status :: string
  created_at :: string
  due_date :: "string option"
  completed_at :: "string option"
  tags :: "string list"

text \<open>
  The content of a path, as \<open>load_tasks\<close> can tell it apart: no file; a file of length
  zero (what \<open>open(path, 'w')\<close> leaves before anything is written); a file that
  \<open>json.load\<close> rejects; a file holding the JSON of a list of tasks.
\<close>

datatype file_state =
    No_file
  | Empty_file
  | Corrupt_file
  | Json_file "task list"

type_synonym filesystem = "string \<Rightarrow> file_state"

text \<open>
  What is printed: a line of text; the grid \<open>tabulate.tabulate(table_data, headers)\<close>
  (headers and rows); the line \<open>Total: n tasks\<close>.
\<close>

datatype printed =
    Line string
  | Grid "string list" "string list list"
  | Total_line nat

subsection \<open>load\_tasks and save\_tasks\<close>

text \<open>
  \<open>load_tasks\<close> (lines 15-24): the list in the file; the empty list when the file does
  not exist; the empty list and an error line when \<open>json.load\<close> raises
  \<open>JSONDecodeError\<close>, which it does on an empty file too.
\<close>

definition load_tasks :: "string \<Rightarrow> filesystem \<Rightarrow> task list \<times> printed list" where
  "load_tasks tasks_file fs =
     (case fs tasks_file of
        No_file \<Rightarrow> ([], [])
      | Json_file ts \<Rightarrow> (ts, [])
      | _ \<Rightarrow> ([], [Line (''Error: '' @ tasks_file @ '' is corrupted. Creating a new tasks file.'')]))"

text \<open>
  \<open>save_tasks\<close> (lines 26-29) is \<open>open(tasks_file, 'w')\<close>, which creates the file or
  truncates it to length zero in place, followed by \<open>json.dump\<close> into it and the close
  at the end of the \<open>with\<close> block. \<open>save_trace\<close> lists the file systems an observer can
  see: before the call, after the open, after the call.
\<close>

definition open_w :: "string \<Rightarrow> filesystem \<Rightarrow> filesystem" where
  "open_w tasks_file fs = fs(tasks_file := Empty_file)"

definition json_dump :: "task list \<Rightarrow> string \<Rightarrow> filesystem \<Rightarrow> filesystem" where
  "json_dump tasks tasks_file fs = fs(tasks_file := Json_file tasks)"

definition save_tasks :: "task list \<Rightarrow> string \<Rightarrow> filesystem \<Rightarrow> filesystem" where
  "save_tasks tasks tasks_file fs = json_dump tasks tasks_file (open_w tasks_file fs)"

definition save_trace :: "task list \<Rightarrow> string \<Rightarrow> filesystem \<Rightarrow> filesystem list" where
  "save_trace tasks tasks_file fs =
     [fs, open_w tasks_file fs, json_dump tasks tasks_file (open_w tasks_file fs)]"

subsection \<open>add\_task\<close>

text \<open>
  \<open>add_task\<close> (lines 31-60). \<open>uuid4\<close> is \<open>str(uuid.uuid4())\<close> and \<open>now\<close> the formatted
  current time. The result is the returned id, the lines printed and the file system.
\<close>

definition add_task ::
  "(string \<Rightarrow> string) \<Rightarrow> string \<Rightarrow> string \<Rightarrow> string \<Rightarrow> string \<Rightarrow> string \<Rightarrow> string option \<Rightarrow> string list option
     \<Rightarrow> string \<Rightarrow> filesystem \<Rightarrow> string \<times> printed list \<times> filesystem" where
  "add_task unicode_lower uuid4 now title_arg description_arg priority_arg due_date_arg tags_arg tasks_file fs =
     (let (tasks, out0) = load_tasks tasks_file fs;
          invalid = (lower unicode_lower priority_arg \<notin> set PRIORITIES);
          out1 = (if invalid
                  then [Line (''Invalid priority: '' @ priority_arg @ ''. Using 'medium' instead.'')]
                  else []);
          priority1 = (if invalid then ''medium'' else priority_arg);
          task = \<lparr> id' = take 8 uuid4,
                   title = title_arg,
                   description = description_arg,
                   priority = lower unicode_lower priority1,
                   status = ''pending'',
                   created_at = now,
                   due_date = due_date_arg,
                   completed_at = None,
                   tags = (case tags_arg of None \<Rightarrow> [] | Some ts \<Rightarrow> ts) \<rparr>;
          fs1 = save_tasks (tasks @ [task]) tasks_file fs
      in (id' task, out0 @ out1 @ [Line (''Task added with ID: '' @ id' task)], fs1))"

text \<open>
  The text of a version 4 UUID as \<open>str\<close> prints it: 36 characters, small hexadecimal
  digits in groups of 8-4-4-4-12 separated by hyphens, version digit 4, variant digit
  8, 9, a or b.
\<close>

definition is_hex :: "char \<Rightarrow> bool" where
  "is_hex c = (c \<in> set ''0123456789abcdef'')"

definition is_uuid4 :: "string \<Rightarrow> bool" where
  "is_uuid4 u =
     (length u = 36 \<and>
      list_all (\<lambda>i. if i \<in> set [8, 13, 18, 23] then u ! i = CHR ''-'' else is_hex (u ! i)) [0..<36] \<and>
      u ! 14 = CHR ''4'' \<and> u ! 19 \<in> set ''89ab'')"

subsection \<open>list\_tasks\<close>

text \<open>
  Lines 67-71 and 73-77. \<open>if status:\<close> is false for \<open>None\<close> and for the empty string,
  and then the filter is skipped; otherwise the lowercased value must be in the list.
\<close>

definition filter_status ::
  "(string \<Rightarrow> string) \<Rightarrow> string option \<Rightarrow> task list \<Rightarrow> printed + task list" where
  "filter_status unicode_lower status_arg tasks =
     (case status_arg of
        None \<Rightarrow> Inr tasks
      | Some s \<Rightarrow>
          if s = [] then Inr tasks
          else if lower unicode_lower s \<notin> set STATUSES then Inl (Line (''Invalid status: '' @ s))
          else Inr (filter (\<lambda>t. status t = lower unicode_lower s) tasks))"

definition filter_priority ::
  "(string \<Rightarrow> string) \<Rightarrow> string option \<Rightarrow> task list \<Rightarrow> printed + task list" where
  "filter_priority unicode_lower priority_arg tasks =
     (case priority_arg of
        None \<Rightarrow> Inr tasks
      | Some p \<Rightarrow>
          if p = [] then Inr tasks
          else if lower unicode_lower p \<notin> set PRIORITIES then Inl (Line (''Invalid priority: '' @ p))
          else Inr (filter (\<lambda>t. priority t = lower unicode_lower p) tasks))"

text \<open>Lines 79-80, skipped for \<open>None\<close> and for the empty string as well.\<close>

definition filter_tag ::
  "(string \<Rightarrow> string) \<Rightarrow> string option \<Rightarrow> task list \<Rightarrow> task list" where
  "filter_tag unicode_lower tag_arg tasks =
     (case tag_arg of
        None \<Rightarrow> tasks
      | Some g \<Rightarrow>
          if g = [] then tasks
          else filter (\<lambda>t. lower unicode_lower g \<in> set (map (lower unicode_lower) (tags t))) tasks)"

text \<open>
  Line 85: \<open>{p: i for i, p in enumerate(PRIORITIES)}\<close>, and the key of line 86,
  \<open>priority_order.get(x["priority"], 0)\<close>.
\<close>

definition priority_order :: "string \<rightharpoonup> nat" where
  "priority_order = map_of (map (\<lambda>(i, p). (p, i)) (enumerate 0 PRIORITIES))"

definition priority_key :: "task \<Rightarrow> nat" where
  "priority_key x = (case priority_order (priority x) of None \<Rightarrow> 0 | Some i \<Rightarrow> i)"

text \<open>
  \<open>sorted(xs, key=k)\<close> is a stable ascending sort, as \<open>sort_key\<close> is.
  \<open>sorted(xs, key=k, reverse=True)\<close> reverses the list, sorts it the same way and
  reverses the result.
\<close>

definition sorted_reverse :: "('a \<Rightarrow> 'k::linorder) \<Rightarrow> 'a list \<Rightarrow> 'a list" where
  "sorted_reverse k xs = rev (sort_key k (rev xs))"

text \<open>Line 88: \<open>x[sort_by] if x[sort_by] is not None else ""\<close> for the two date keys.\<close>

definition date_key :: "string \<Rightarrow> task \<Rightarrow> string" where
  "date_key sort_by x =
     (if sort_by = ''created_at'' then created_at x
      else (case due_date x of None \<Rightarrow> [] | Some d \<Rightarrow> d))"

definition sort_tasks :: "string \<Rightarrow> task list \<Rightarrow> task list" where
  "sort_tasks sort_by tasks =
     (if sort_by \<in> set [''created_at'', ''due_date'', ''priority'']
      then (if sort_by = ''priority''
            then sorted_reverse priority_key tasks
            else sort_key (date_key sort_by) tasks)
      else tasks)"

text \<open>
  Lines 66-88 as a whole: the tasks to display, or the line printed when a filter is
  rejected and the function returns at once.
\<close>

definition select_tasks ::
  "(string \<Rightarrow> string) \<Rightarrow> string option \<Rightarrow> string option \<Rightarrow> string option \<Rightarrow> string \<Rightarrow> task list \<Rightarrow> printed + task list" where
  "select_tasks unicode_lower status_arg priority_arg tag_arg sort_by tasks =
     (case filter_status unicode_lower status_arg tasks of
        Inl e \<Rightarrow> Inl e
      | Inr tasks1 \<Rightarrow>
          (case filter_priority unicode_lower priority_arg tasks1 of
             Inl e \<Rightarrow> Inl e
           | Inr tasks2 \<Rightarrow> Inr (sort_tasks sort_by (filter_tag unicode_lower tag_arg tasks2))))"

text \<open>Lines 96-124: one row of the table.\<close>

definition table_row :: "task \<Rightarrow> string list" where
  "table_row t =
     [id' t,
      title t,
      (if description t \<noteq> [] \<and> length (description t) > 30
       then take 27 (description t) @ ''...''
       else description t),
      priority t,
      status t,
      (case due_date t of None \<Rightarrow> [] | Some d \<Rightarrow> d),
      join '', '' (tags t)]"

definition headers :: "string list" where
  "headers = [''ID'', ''Title'', ''Description'', ''Priority'', ''Status'', ''Due Date'', ''Tags'']"

text \<open>\<open>list_tasks\<close> (lines 62-129) returns nothing; its result is what it prints.\<close>

definition list_tasks ::
  "(string \<Rightarrow> string) \<Rightarrow> string option \<Rightarrow> string option \<Rightarrow> string option \<Rightarrow> string \<Rightarrow> string \<Rightarrow> filesystem \<Rightarrow> printed list" where
  "list_tasks unicode_lower status_arg priority_arg tag_arg sort_by tasks_file fs =
     (let (tasks, out0) = load_tasks tasks_file fs
      in out0 @
         (case select_tasks unicode_lower status_arg priority_arg tag_arg sort_by tasks of
            Inl e \<Rightarrow> [e]
          | Inr shown \<Rightarrow>
              if shown = [] then [Line ''No tasks found'']
              else [Grid headers (map table_row shown), Total_line (length shown)]))"

subsection \<open>update\_task\<close>

text \<open>
  Lines 139-168: the body run on the task that was found. It gives the task after the
  assignments and the warnings printed.
\<close>

definition update_fields ::
  "(string \<Rightarrow> string) \<Rightarrow> string \<Rightarrow> string option \<Rightarrow> string option \<Rightarrow> string option \<Rightarrow> string option \<Rightarrow> string option
     \<Rightarrow> string list option \<Rightarrow> task \<Rightarrow> task \<times> printed list" where
  "update_fields unicode_lower now title_arg description_arg priority_arg status_arg due_date_arg tags_arg t =
     (let t1 = (case title_arg of None \<Rightarrow> t | Some v \<Rightarrow> t\<lparr>title := v\<rparr>);
          t2 = (case description_arg of None \<Rightarrow> t1 | Some v \<Rightarrow> t1\<lparr>description := v\<rparr>);
          (t3, w1) =
            (case priority_arg of
               None \<Rightarrow> (t2, [])
             | Some p \<Rightarrow>
                 if lower unicode_lower p \<notin> set PRIORITIES
                 then (t2, [Line (''Invalid priority: '' @ p @ ''. Keeping the current priority.'')])
                 else (t2\<lparr>priority := lower unicode_lower p\<rparr>, []));
          (t4, w2) =
            (case status_arg of
               None \<Rightarrow> (t3, [])
             | Some s \<Rightarrow>
                 if lower unicode_lower s \<notin> set STATUSES
                 then (t3, [Line (''Invalid status: '' @ s @ ''. Keeping the current status.'')])
                 else
                   (let old_status = status t3;
                        u = t3\<lparr>status := lower unicode_lower s\<rparr>
                    in (if status u = ''completed'' \<and> old_status \<noteq> ''completed''
                        then u\<lparr>completed_at := Some now\<rparr>
                        else if status u \<noteq> ''completed''
                        then u\<lparr>completed_at := None\<rparr>
                        else u, [])));
          t5 = (case due_date_arg of None \<Rightarrow> t4 | Some v \<Rightarrow> t4\<lparr>due_date := Some v\<rparr>);
          t6 = (case tags_arg of None \<Rightarrow> t5 | Some v \<Rightarrow> t5\<lparr>tags := v\<rparr>)
      in (t6, w1 @ w2))"

text \<open>
  Lines 136-137 and 174: the loop stops at the first task whose id matches. The result
  is whether one was found, the list in memory afterwards and the warnings.
\<close>

fun update_loop ::
  "(string \<Rightarrow> string) \<Rightarrow> string \<Rightarrow> string \<Rightarrow> string option \<Rightarrow> string option \<Rightarrow> string option \<Rightarrow> string option
     \<Rightarrow> string option \<Rightarrow> string list option \<Rightarrow> task list \<Rightarrow> bool \<times> task list \<times> printed list" where
  "update_loop unicode_lower now task_id ti de pr st du tg [] = (False, [], [])"
| "update_loop unicode_lower now task_id ti de pr st du tg (t # ts) =
     (if id' t = task_id
      then (let (t', w) = update_fields unicode_lower now ti de pr st du tg t in (True, t' # ts, w))
      else (let (found, ts', w) = update_loop unicode_lower now task_id ti de pr st du tg ts
            in (found, t # ts', w)))"

text \<open>\<open>update_task\<close> (lines 131-177): the returned flag, the lines printed, the file system.\<close>

definition update_task ::
  "(string \<Rightarrow> string) \<Rightarrow> string \<Rightarrow> string \<Rightarrow> string option \<Rightarrow> string option \<Rightarrow> string option \<Rightarrow> string option
     \<Rightarrow> string option \<Rightarrow> string list option \<Rightarrow> string \<Rightarrow> filesystem
     \<Rightarrow> bool \<times> printed list \<times> filesystem" where
  "update_task unicode_lower now task_id title_arg description_arg priority_arg status_arg due_date_arg tags_arg
       tasks_file fs =
     (let (tasks, out0) = load_tasks tasks_file fs;
          (found, tasks1, w) =
            update_loop unicode_lower now task_id title_arg description_arg priority_arg status_arg
              due_date_arg tags_arg tasks
      in if found
         then (True, out0 @ w @ [Line (''Task '' @ task_id @ '' updated successfully'')],
               save_tasks tasks1 tasks_file fs)
         else (False, out0 @ [Line (''Task with ID '' @ task_id @ '' not found'')], fs))"

subsection \<open>delete\_task\<close>

text \<open>
  Lines 184-187: \<open>tasks.pop(i)\<close> at the first index whose task has the id. The result is
  the removed task, if any, and the list in memory afterwards.
\<close>

fun delete_loop :: "string \<Rightarrow> task list \<Rightarrow> task option \<times> task list" where
  "delete_loop task_id [] = (None, [])"
| "delete_loop task_id (t # ts) =
     (if id' t = task_id then (Some t, ts)
      else (let (removed, ts') = delete_loop task_id ts in (removed, t # ts')))"

text \<open>\<open>delete_task\<close> (lines 179-196).\<close>

definition delete_task :: "string \<Rightarrow> string \<Rightarrow> filesystem \<Rightarrow> bool \<times> printed list \<times> filesystem" where
  "delete_task task_id tasks_file fs =
     (let (tasks, out0) = load_tasks tasks_file fs
      in case delete_loop task_id tasks of
           (Some removed_task, tasks1) \<Rightarrow>
             (True,
              out0 @ [Line (''Task '' @ task_id @ '' ('' @ title removed_task @ '') deleted successfully'')],
              save_tasks tasks1 tasks_file fs)
         | (None, _) \<Rightarrow>
             (False, out0 @ [Line (''Task with ID '' @ task_id @ '' not found'')], fs))"

section \<open>Reference descriptions and sample data\<close>

text \<open>
  The task that an update is specified to produce, written field by field so that it can
  be compared with what \<open>update_fields\<close> computes: a field that is not provided keeps
  its value; a provided title, description, due date or tag list replaces the old one; a
  provided priority or status replaces the old one only when its lowercase form is in
  the enumeration; \<open>completed_at\<close> follows an accepted status.
\<close>

definition specified_update ::
  "(string \<Rightarrow> string) \<Rightarrow> string \<Rightarrow> string option \<Rightarrow> string option \<Rightarrow> string option \<Rightarrow> string option \<Rightarrow> string option
     \<Rightarrow> string list option \<Rightarrow> task \<Rightarrow> task" where
  "specified_update unicode_lower now title_arg description_arg priority_arg status_arg due_date_arg tags_arg t =
     t\<lparr> title := (case title_arg of None \<Rightarrow> title t | Some v \<Rightarrow> v),
        description := (case description_arg of None \<Rightarrow> description t | Some v \<Rightarrow> v),
        priority := (case priority_arg of
                       None \<Rightarrow> priority t
                     | Some p \<Rightarrow> if lower unicode_lower p \<in> set PRIORITIES then lower unicode_lower p else priority t),
        status := (case status_arg of
                     None \<Rightarrow> status t
                   | Some s \<Rightarrow> if lower unicode_lower s \<in> set STATUSES then lower unicode_lower s else status t),
        completed_at := (case status_arg of
                           None \<Rightarrow> completed_at t
                         | Some s \<Rightarrow>
                             if lower unicode_lower s \<in> set STATUSES
                             then (if lower unicode_lower s = ''completed''
                                   then (if status t = ''completed'' then completed_at t
                                         else Some now)
                                   else None)
                             else completed_at t),
        due_date := (case due_date_arg of None \<Rightarrow> due_date t | Some v \<Rightarrow> Some v),
        tags := (case tags_arg of None \<Rightarrow> tags t | Some v \<Rightarrow> v) \<rparr>"

text \<open>The warning an update prints for a provided priority or status that is rejected.\<close>

definition priority_warning ::
  "(string \<Rightarrow> string) \<Rightarrow> string option \<Rightarrow> printed list" where
  "priority_warning unicode_lower priority_arg =
     (case priority_arg of
        None \<Rightarrow> []
      | Some p \<Rightarrow>
          if lower unicode_lower p \<in> set PRIORITIES then []
          else [Line (''Invalid priority: '' @ p @ ''. Keeping the current priority.'')])"

definition status_warning ::
  "(string \<Rightarrow> string) \<Rightarrow> string option \<Rightarrow> printed list" where
  "status_warning unicode_lower status_arg =
     (case status_arg of
        None \<Rightarrow> []
      | Some s \<Rightarrow>
          if lower unicode_lower s \<in> set STATUSES then []
          else [Line (''Invalid status: '' @ s @ ''. Keeping the current status.'')])"

text \<open>
  A save is atomic when every file content an observer can see during it is the old
  content or the new one.
\<close>

definition save_atomic :: "task list \<Rightarrow> string \<Rightarrow> filesystem \<Rightarrow> bool" where
  "save_atomic tasks tasks_file fs =
     list_all (\<lambda>s. s tasks_file = fs tasks_file \<or> s tasks_file = Json_file tasks)
       (save_trace tasks tasks_file fs)"

text \<open>Sample data: a file system with no file, and one whose default file holds a list.\<close>

definition no_files :: filesystem where
  "no_files = (\<lambda>path. No_file)"

definition store :: "task list \<Rightarrow> filesystem" where
  "store ts = no_files(DEFAULT_TASKS_FILE := Json_file ts)"

definition buy_milk :: task where
  "buy_milk = \<lparr> id' = ''abc123de'', title = ''Buy milk'', description = '''',
     priority = ''high'', status = ''pending'', created_at = ''2024-05-01 09:00:00'',
     due_date = None, completed_at = None, tags = [''home''] \<rparr>"

text \<open>A task as a hand-edited file can hold it: completed, with no completion time.\<close>

definition stale_task :: task where
  "stale_task = \<lparr> id' = ''0f3c9a77'', title = ''File report'', description = '''',
     priority = ''low'', status = ''completed'', created_at = ''2024-04-30 17:45:10'',
     due_date = None, completed_at = None, tags = [] \<rparr>"

text \<open>Two different version 4 UUIDs that agree on their first eight characters.\<close>

definition uuid_a :: string where
  "uuid_a = ''1b9d6bcd-bbfd-4b2d-9b5d-ab8dfbbd4bed''"

definition uuid_b :: string where
  "uuid_b = ''1b9d6bcd-0c1e-4f6a-8d3b-27e5c9a1f004''"

text \<open>A task that differs from \<open>buy_milk\<close> in its id and priority only.\<close>

definition with_priority :: "string \<Rightarrow> string \<Rightarrow> task" where
  "with_priority i p = buy_milk\<lparr>id' := i, priority := p\<rparr>"

text \<open>
  A case table for the examples: besides ASCII it knows the capital E with acute accent
  (code 201) and its small letter (code 233).
\<close>

definition sample_lower :: "string \<Rightarrow> string" where
  "sample_lower s = map (\<lambda>c. if c = CHR 0xC9 then CHR 0xE9 else lower_char c) s"



text \<open>
  A task is consistent when a completed task has a completion time. Every operation of
  the program keeps the tasks of a collection consistent.
\<close>

definition completion_consistent :: "task \<Rightarrow> bool" where
  "completion_consistent t = (status t = ''completed'' \<longrightarrow> completed_at t \<noteq> None)"

section \<open>Basic facts\<close>

lemmas sample_defs = no_files_def store_def DEFAULT_TASKS_FILE_def buy_milk_def stale_task_def

lemma save_tasks_eq: "save_tasks tasks f fs = fs(f := Json_file tasks)"
  by (simp add: save_tasks_def json_dump_def open_w_def)

lemma load_tasks_Json: "fs f = Json_file ts \<Longrightarrow> load_tasks f fs = (ts, [])"
  by (simp add: load_tasks_def)

lemma load_save: "load_tasks f (save_tasks tasks f fs) = (tasks, [])"
  by (simp add: load_tasks_def save_tasks_eq)

lemma update_loop_absent:
  "task_id \<notin> id' ` set ts \<Longrightarrow> update_loop ul now task_id ti de pr st du tg ts = (False, ts, [])"
  by (induction ts) auto

lemma update_loop_first:
  "id' t = task_id \<Longrightarrow> task_id \<notin> id' ` set pre \<Longrightarrow>
   update_loop ul now task_id ti de pr st du tg (pre @ t # post) =
     (True, pre @ fst (update_fields ul now ti de pr st du tg t) # post,
      snd (update_fields ul now ti de pr st du tg t))"
  by (induction pre) (auto simp: case_prod_unfold Let_def)

lemma delete_loop_absent:
  "task_id \<notin> id' ` set ts \<Longrightarrow> delete_loop task_id ts = (None, ts)"
  by (induction ts) auto

lemma delete_loop_first:
  "id' t = task_id \<Longrightarrow> task_id \<notin> id' ` set pre \<Longrightarrow>
   delete_loop task_id (pre @ t # post) = (Some t, pre @ post)"
  by (induction pre) auto

lemma update_fields_eq:
  "update_fields ul now ti de pr st du tg t =
     (specified_update ul now ti de pr st du tg t, priority_warning ul pr @ status_warning ul st)"
  by (simp add: update_fields_def specified_update_def priority_warning_def status_warning_def
        Let_def split: option.splits)

lemma update_task_absent:
  assumes "task_id \<notin> id' ` set (fst (load_tasks tasks_file fs))"
  shows "update_task ul now task_id ti de pr st du tg tasks_file fs =
           (False,
            snd (load_tasks tasks_file fs) @ [Line (''Task with ID '' @ task_id @ '' not found'')],
            fs)"
  using update_loop_absent [OF assms]
  by (simp add: update_task_def case_prod_unfold)

lemma delete_task_absent:
  assumes "task_id \<notin> id' ` set (fst (load_tasks tasks_file fs))"
  shows "delete_task task_id tasks_file fs =
           (False,
            snd (load_tasks tasks_file fs) @ [Line (''Task with ID '' @ task_id @ '' not found'')],
            fs)"
  using delete_loop_absent [OF assms]
  by (simp add: delete_task_def case_prod_unfold)

lemma update_task_found:
  assumes "fs tasks_file = Json_file (pre @ t # post)"
    and "id' t = task_id" and "task_id \<notin> id' ` set pre"
  shows "update_task ul now task_id ti de pr st du tg tasks_file fs =
           (True,
            priority_warning ul pr @ status_warning ul st @
              [Line (''Task '' @ task_id @ '' updated successfully'')],
            fs(tasks_file := Json_file (pre @ specified_update ul now ti de pr st du tg t # post)))"
  using update_loop_first [OF assms(2,3)] load_tasks_Json [of fs tasks_file, OF assms(1)]
  by (simp add: update_task_def update_fields_eq save_tasks_eq)

section \<open>Update and delete of an id that is not in the collection\<close>

text \<open>
  C4. When no task of the loaded collection has the given id, \<open>update_task\<close> returns
  false and leaves the file system as it was, whatever fields were provided; the loop
  leaves the list in memory as loaded. \<open>delete_task\<close> does the same.
\<close>

theorem absent_id_changes_nothing:
  assumes "task_id \<notin> id' ` set (fst (load_tasks tasks_file fs))"
  shows "update_task ul now task_id ti de pr st du tg tasks_file fs =
           (False,
            snd (load_tasks tasks_file fs) @ [Line (''Task with ID '' @ task_id @ '' not found'')],
            fs)
       \<and> update_loop ul now task_id ti de pr st du tg (fst (load_tasks tasks_file fs)) =
           (False, fst (load_tasks tasks_file fs), [])
       \<and> delete_task task_id tasks_file fs =
           (False,
            snd (load_tasks tasks_file fs) @ [Line (''Task with ID '' @ task_id @ '' not found'')],
            fs)
       \<and> delete_loop task_id (fst (load_tasks tasks_file fs)) =
           (None, fst (load_tasks tasks_file fs))"
  using assms update_task_absent delete_task_absent update_loop_absent delete_loop_absent
  by simp

theorem absent_id_changes_nothing_witness:
  "''zz'' \<notin> id' ` set (fst (load_tasks DEFAULT_TASKS_FILE (store [buy_milk])))
   \<and> update_task sample_lower ''2024-05-02 08:00:00'' ''zz'' (Some ''Buy bread'') None None
        (Some ''completed'') None None DEFAULT_TASKS_FILE (store [buy_milk]) =
       (False, [Line ''Task with ID zz not found''], store [buy_milk])
   \<and> delete_task ''zz'' DEFAULT_TASKS_FILE (store [buy_milk]) =
       (False, [Line ''Task with ID zz not found''], store [buy_milk])"
proof -
  have h: "''zz'' \<notin> id' ` set (fst (load_tasks DEFAULT_TASKS_FILE (store [buy_milk])))"
    by (simp add: load_tasks_def sample_defs)
  have l: "snd (load_tasks DEFAULT_TASKS_FILE (store [buy_milk])) = []"
    by (simp add: load_tasks_def sample_defs)
  show ?thesis
    using h l
      absent_id_changes_nothing [OF h, of sample_lower "''2024-05-02 08:00:00''" "Some ''Buy bread''" None
        None "Some ''completed''" None None]
    by simp
qed

section \<open>Update of a task that is found\<close>

text \<open>
  C5. When the first task with the given id is \<open>t\<close>, \<open>update_task\<close> returns true and
  replaces the file's content by the collection in which \<open>t\<close> has become
  \<open>specified_update ... t\<close> and every other task is as it was: every provided field is
  applied on its own, a priority or status whose lowercase form is not in its
  enumeration leaves that one field as it was, and fields not provided keep their values.
  The lines printed are exactly one warning for each rejected field and the line of success.
\<close>

theorem update_applies_each_field:
  assumes "fs tasks_file = Json_file (pre @ t # post)"
    and "id' t = task_id" and "task_id \<notin> id' ` set pre"
  shows "update_task ul now task_id ti de pr st du tg tasks_file fs =
           (True,
            priority_warning ul pr @ status_warning ul st @
              [Line (''Task '' @ task_id @ '' updated successfully'')],
            fs(tasks_file := Json_file (pre @ specified_update ul now ti de pr st du tg t # post)))"
  using assms by (rule update_task_found)

theorem update_applies_each_field_witness:
  "store [buy_milk] DEFAULT_TASKS_FILE = Json_file ([] @ buy_milk # [])
   \<and> id' buy_milk = ''abc123de'' \<and> ''abc123de'' \<notin> id' ` set []
   \<and> update_task sample_lower ''2024-05-02 08:00:00'' ''abc123de'' (Some ''Buy oat milk'') None (Some ''urgent'')
         (Some ''done'') (Some ''2024-05-03'') None DEFAULT_TASKS_FILE (store [buy_milk]) =
       (True,
        [Line ''Invalid priority: urgent. Keeping the current priority.'',
         Line ''Invalid status: done. Keeping the current status.'',
         Line ''Task abc123de updated successfully''],
        store [buy_milk\<lparr>title := ''Buy oat milk'', due_date := Some ''2024-05-03''\<rparr>])"
proof -
  have h1: "store [buy_milk] DEFAULT_TASKS_FILE = Json_file ([] @ buy_milk # [])"
    by (simp add: store_def)
  have h2: "id' buy_milk = ''abc123de''"
    by (simp add: buy_milk_def)
  have h3: "''abc123de'' \<notin> id' ` set []"
    by simp
  have p: "priority_warning sample_lower (Some ''urgent'') =
             [Line ''Invalid priority: urgent. Keeping the current priority.'']"
    by (simp add: priority_warning_def PRIORITIES_def lower_def is_ascii_def lower_char_def)
  have s: "status_warning sample_lower (Some ''done'') =
             [Line ''Invalid status: done. Keeping the current status.'']"
    by (simp add: status_warning_def STATUSES_def lower_def is_ascii_def lower_char_def)
  have u: "specified_update sample_lower ''2024-05-02 08:00:00'' (Some ''Buy oat milk'') None (Some ''urgent'')
             (Some ''done'') (Some ''2024-05-03'') None buy_milk =
           buy_milk\<lparr>title := ''Buy oat milk'', due_date := Some ''2024-05-03''\<rparr>"
    by (simp add: specified_update_def PRIORITIES_def STATUSES_def lower_def is_ascii_def lower_char_def
          buy_milk_def)
  show ?thesis
    using h1 h2 h3
      update_applies_each_field [where fs = "store [buy_milk]" and tasks_file = DEFAULT_TASKS_FILE,
        OF h1 h2 h3, of sample_lower "''2024-05-02 08:00:00''" "Some ''Buy oat milk''" None "Some ''urgent''"
        "Some ''done''" "Some ''2024-05-03''" None]
    by (simp add: p s u store_def)
qed

text \<open>
  C10. When the first task with the given id is \<open>t\<close>, an update whose only provided
  field is the empty title returns true and stores the task with the empty title; loading
  the file afterwards gives the collection with that task. No check keeps the title
  non-empty.
\<close>

theorem update_accepts_empty_title:
  assumes "fs tasks_file = Json_file (pre @ t # post)"
    and "id' t = task_id" and "task_id \<notin> id' ` set pre"
  shows "update_task ul now task_id (Some []) None None None None None tasks_file fs =
           (True, [Line (''Task '' @ task_id @ '' updated successfully'')],
            fs(tasks_file := Json_file (pre @ t\<lparr>title := []\<rparr> # post)))
       \<and> fst (load_tasks tasks_file
                (snd (snd (update_task ul now task_id (Some []) None None None None None
                             tasks_file fs)))) =
           pre @ t\<lparr>title := []\<rparr> # post
       \<and> title (t\<lparr>title := []\<rparr>) = []"
  using update_task_found [where fs = fs and tasks_file = tasks_file, OF assms,
          of ul now "Some []" None None None None None]
  by (simp add: specified_update_def priority_warning_def status_warning_def load_tasks_def)

theorem update_accepts_empty_title_witness:
  "store [buy_milk] DEFAULT_TASKS_FILE = Json_file ([] @ buy_milk # [])
   \<and> id' buy_milk = ''abc123de'' \<and> ''abc123de'' \<notin> id' ` set []
   \<and> update_task sample_lower ''2024-05-02 08:00:00'' ''abc123de'' (Some []) None None None None None
         DEFAULT_TASKS_FILE (store [buy_milk]) =
       (True, [Line ''Task abc123de updated successfully''], store [buy_milk\<lparr>title := []\<rparr>])"
proof -
  have h1: "store [buy_milk] DEFAULT_TASKS_FILE = Json_file ([] @ buy_milk # [])"
    by (simp add: store_def)
  have h2: "id' buy_milk = ''abc123de''"
    by (simp add: buy_milk_def)
  have h3: "''abc123de'' \<notin> id' ` set []"
    by simp
  show ?thesis
    using h1 h2 h3
      update_accepts_empty_title [where fs = "store [buy_milk]"
        and tasks_file = DEFAULT_TASKS_FILE, OF h1 h2 h3, of sample_lower
          "''2024-05-02 08:00:00''"]
    by (simp add: store_def)
qed

section \<open>Status and completion time\<close>

lemma lower_completed: "lower ul ''completed'' = ''completed''"
  by (simp add: lower_def is_ascii_def lower_char_def)

lemma lower_pending: "lower ul ''pending'' = ''pending''"
  by (simp add: lower_def is_ascii_def lower_char_def)

lemma completed_in_STATUSES: "''completed'' \<in> set STATUSES"
  by (simp add: STATUSES_def)

lemma pending_in_STATUSES: "''pending'' \<in> set STATUSES"
  by (simp add: STATUSES_def)

lemma specified_update_id: "id' (specified_update ul now ti de pr st du tg t) = id' t"
  by (simp add: specified_update_def)

lemma specified_update_completed:
  "status (specified_update ul now ti de pr (Some ''completed'') du tg t) = ''completed''
   \<and> completed_at (specified_update ul now ti de pr (Some ''completed'') du tg t) =
       (if status t = ''completed'' then completed_at t else Some now)"
  by (simp add: specified_update_def lower_completed completed_in_STATUSES)

lemma specified_update_pending:
  "status (specified_update ul now ti de pr (Some ''pending'') du tg t) = ''pending''
   \<and> completed_at (specified_update ul now ti de pr (Some ''pending'') du tg t) = None"
  by (simp add: specified_update_def lower_pending pending_in_STATUSES)

lemma specified_update_consistent:
  "completion_consistent t \<Longrightarrow> completion_consistent (specified_update ul now ti de pr st du tg t)"
  by (auto simp: completion_consistent_def specified_update_def split: option.splits)

lemma update_loop_consistent:
  "list_all completion_consistent ts \<Longrightarrow>
   list_all completion_consistent (fst (snd (update_loop ul now task_id ti de pr st du tg ts)))"
  by (induction ts)
     (simp_all add: update_fields_eq specified_update_consistent case_prod_unfold Let_def)

lemma delete_loop_consistent:
  "list_all completion_consistent ts \<Longrightarrow>
   list_all completion_consistent (snd (delete_loop task_id ts))"
  by (induction ts) (simp_all add: case_prod_unfold Let_def)

lemma update_task_consistent:
  "list_all completion_consistent (fst (load_tasks f fs)) \<Longrightarrow>
   list_all completion_consistent
     (fst (load_tasks f (snd (snd (update_task ul now task_id ti de pr st du tg f fs)))))"
  using update_loop_consistent [of "fst (load_tasks f fs)" ul now task_id ti de pr st du tg]
  by (simp add: update_task_def case_prod_unfold Let_def load_save)

lemma delete_task_consistent:
  "list_all completion_consistent (fst (load_tasks f fs)) \<Longrightarrow>
   list_all completion_consistent (fst (load_tasks f (snd (snd (delete_task task_id f fs)))))"
  using delete_loop_consistent [of "fst (load_tasks f fs)" task_id]
  by (simp add: delete_task_def case_prod_unfold Let_def load_save split: option.splits)

lemma add_task_consistent:
  "list_all completion_consistent (fst (load_tasks f fs)) \<Longrightarrow>
   list_all completion_consistent
     (fst (load_tasks f (snd (snd (add_task ul uuid4 now ti de pr du tg f fs)))))"
  by (simp add: add_task_def case_prod_unfold Let_def load_save completion_consistent_def)

text \<open>
  C1 (amended). Let \<open>t\<close> be the first task with the given id, and let \<open>t\<close> have a
  completion time if it is already completed. An update with status \<open>completed\<close>,
  whatever else it provides, returns true and stores the task as completed with a
  completion time: the current time when \<open>t\<close> was not completed, the time it had
  otherwise. A following update with status \<open>pending\<close> returns true and stores the task
  as pending with no completion time. In general, for any task, an accepted status sets
  the completion time to the current time on a change to completed, keeps it when the
  task was completed already, and clears it when the new status is not completed.
\<close>

theorem completed_at_follows_status:
  assumes "fs tasks_file = Json_file (pre @ t # post)"
    and "id' t = task_id" and "task_id \<notin> id' ` set pre"
    and "status t = ''completed'' \<longrightarrow> completed_at t \<noteq> None"
  shows "(\<exists>out1 fs1 t1 out2 fs2 t2.
           update_task ul now1 task_id ti de pr (Some ''completed'') du tg tasks_file fs =
             (True, out1, fs1)
         \<and> fs1 tasks_file = Json_file (pre @ t1 # post)
         \<and> id' t1 = task_id \<and> status t1 = ''completed''
         \<and> completed_at t1 = (if status t = ''completed'' then completed_at t else Some now1)
         \<and> completed_at t1 \<noteq> None
         \<and> update_task ul now2 task_id ti2 de2 pr2 (Some ''pending'') du2 tg2 tasks_file fs1 =
             (True, out2, fs2)
         \<and> fs2 tasks_file = Json_file (pre @ t2 # post)
         \<and> id' t2 = task_id \<and> status t2 = ''pending'' \<and> completed_at t2 = None)
       \<and> (lower ul s \<in> set STATUSES \<longrightarrow>
            completed_at (fst (update_fields ul now1 ti de pr (Some s) du tg t)) =
              (if lower ul s = ''completed''
               then (if status t = ''completed'' then completed_at t else Some now1)
               else None))"
proof -
  let ?t1 = "specified_update ul now1 ti de pr (Some ''completed'') du tg t"
  let ?fs1 = "fs(tasks_file := Json_file (pre @ ?t1 # post))"
  let ?t2 = "specified_update ul now2 ti2 de2 pr2 (Some ''pending'') du2 tg2 ?t1"
  let ?fs2 = "?fs1(tasks_file := Json_file (pre @ ?t2 # post))"
  have u1: "update_task ul now1 task_id ti de pr (Some ''completed'') du tg tasks_file fs =
              (True, priority_warning ul pr @ status_warning ul (Some ''completed'') @
                 [Line (''Task '' @ task_id @ '' updated successfully'')], ?fs1)"
    using assms(1-3) by (rule update_task_found)
  have f1: "?fs1 tasks_file = Json_file (pre @ ?t1 # post)"
    by simp
  have i1: "id' ?t1 = task_id"
    using assms(2) by (simp add: specified_update_id)
  have u2: "update_task ul now2 task_id ti2 de2 pr2 (Some ''pending'') du2 tg2 tasks_file ?fs1 =
              (True, priority_warning ul pr2 @ status_warning ul (Some ''pending'') @
                 [Line (''Task '' @ task_id @ '' updated successfully'')], ?fs2)"
    using f1 i1 assms(3) by (rule update_task_found)
  have c1: "completed_at ?t1 \<noteq> None"
    using assms(4) by (simp add: specified_update_completed)
  have g: "lower ul s \<in> set STATUSES \<longrightarrow>
            completed_at (fst (update_fields ul now1 ti de pr (Some s) du tg t)) =
              (if lower ul s = ''completed''
               then (if status t = ''completed'' then completed_at t else Some now1)
               else None)"
    by (simp add: update_fields_eq specified_update_def)
  have e: "\<exists>out1 fs1 t1 out2 fs2 t2.
           update_task ul now1 task_id ti de pr (Some ''completed'') du tg tasks_file fs =
             (True, out1, fs1)
         \<and> fs1 tasks_file = Json_file (pre @ t1 # post)
         \<and> id' t1 = task_id \<and> status t1 = ''completed''
         \<and> completed_at t1 = (if status t = ''completed'' then completed_at t else Some now1)
         \<and> completed_at t1 \<noteq> None
         \<and> update_task ul now2 task_id ti2 de2 pr2 (Some ''pending'') du2 tg2 tasks_file fs1 =
             (True, out2, fs2)
         \<and> fs2 tasks_file = Json_file (pre @ t2 # post)
         \<and> id' t2 = task_id \<and> status t2 = ''pending'' \<and> completed_at t2 = None"
    using u1 u2 i1 c1 specified_update_completed [of ul now1 ti de pr du tg t]
      specified_update_pending [of ul now2 ti2 de2 pr2 du2 tg2 ?t1]
    by (simp add: specified_update_id)
  show ?thesis
    using e g by (rule conjI)
qed


theorem completed_at_follows_status_witness:
  "store [buy_milk] DEFAULT_TASKS_FILE = Json_file ([] @ buy_milk # [])
   \<and> id' buy_milk = ''abc123de'' \<and> ''abc123de'' \<notin> id' ` set []
   \<and> status buy_milk \<noteq> ''completed''
   \<and> (\<exists>out1 fs1 t1 out2 fs2 t2.
           update_task sample_lower ''2024-05-02 08:00:00'' ''abc123de'' None None None (Some ''completed'')
               None None DEFAULT_TASKS_FILE (store [buy_milk]) = (True, out1, fs1)
         \<and> fs1 DEFAULT_TASKS_FILE = Json_file ([] @ t1 # [])
         \<and> id' t1 = ''abc123de'' \<and> status t1 = ''completed''
         \<and> completed_at t1 = Some ''2024-05-02 08:00:00''
         \<and> completed_at t1 \<noteq> None
         \<and> update_task sample_lower ''2024-05-03 11:30:00'' ''abc123de'' None None None (Some ''pending'')
               None None DEFAULT_TASKS_FILE fs1 = (True, out2, fs2)
         \<and> fs2 DEFAULT_TASKS_FILE = Json_file ([] @ t2 # [])
         \<and> id' t2 = ''abc123de'' \<and> status t2 = ''pending'' \<and> completed_at t2 = None)
   \<and> lower sample_lower ''Cancelled'' \<in> set STATUSES
   \<and> completed_at (fst (update_fields sample_lower ''2024-05-02 08:00:00'' None None None (Some ''Cancelled'')
        None None buy_milk)) = None"
proof -
  have h5: "lower sample_lower ''Cancelled'' \<in> set STATUSES" "lower sample_lower ''Cancelled'' \<noteq> ''completed''"
    by (simp_all add: STATUSES_def lower_def is_ascii_def lower_char_def)
  have h1: "store [buy_milk] DEFAULT_TASKS_FILE = Json_file ([] @ buy_milk # [])"
    by (simp add: store_def)
  have h2: "id' buy_milk = ''abc123de''"
    by (simp add: buy_milk_def)
  have h3: "''abc123de'' \<notin> id' ` set []"
    by simp
  have h4: "status buy_milk \<noteq> ''completed''"
    by (simp add: buy_milk_def)
  then have h4': "status buy_milk = ''completed'' \<longrightarrow> completed_at buy_milk \<noteq> None"
    by simp
  show ?thesis
    using h1 h2 h3 h4 h5
      completed_at_follows_status [where fs = "store [buy_milk]"
        and tasks_file = DEFAULT_TASKS_FILE, OF h1 h2 h3 h4',
        of sample_lower "''2024-05-02 08:00:00''" None None None None None
           "''2024-05-03 11:30:00''" None None None None None "''Cancelled''"]
    by simp
qed


text \<open>
  Without the condition on \<open>t\<close> the statement fails, for a completed task whose completion time is missing: the
  update with status \<open>completed\<close> returns true and the stored task is the same as before.
\<close>

theorem completed_at_stale_counterexample:
  "update_task sample_lower ''2024-05-02 08:00:00'' ''0f3c9a77'' None None None (Some ''completed'') None None
       DEFAULT_TASKS_FILE (store [stale_task]) =
     (True, [Line ''Task 0f3c9a77 updated successfully''], store [stale_task])
   \<and> status stale_task = ''completed'' \<and> completed_at stale_task = None"
proof -
  have h1: "store [stale_task] DEFAULT_TASKS_FILE = Json_file ([] @ stale_task # [])"
    by (simp add: store_def)
  have h2: "id' stale_task = ''0f3c9a77''"
    by (simp add: stale_task_def)
  have h3: "''0f3c9a77'' \<notin> id' ` set []"
    by simp
  have u: "specified_update sample_lower ''2024-05-02 08:00:00'' None None None (Some ''completed'') None None
             stale_task = stale_task"
    by (simp add: specified_update_def lower_completed completed_in_STATUSES stale_task_def)
  have s: "status stale_task = ''completed'' \<and> completed_at stale_task = None"
    by (simp add: stale_task_def)
  show ?thesis
    using s update_task_found [where fs = "store [stale_task]" and tasks_file = DEFAULT_TASKS_FILE,
        OF h1 h2 h3, of sample_lower "''2024-05-02 08:00:00''" None None None
          "Some ''completed''" None None]
    by (simp add: u priority_warning_def status_warning_def lower_completed completed_in_STATUSES
          store_def)
qed

section \<open>Saving\<close>

text \<open>
  C2 (amended). When \<open>save_tasks\<close> returns, the file holds exactly the collection given,
  whatever it held before, and loading it gives that collection back. The write is not
  atomic: after the open and before the dump the file is empty, which \<open>load_tasks\<close>
  reports as corrupted; only when the file was empty before is every visible content the
  old one or the new one.
\<close>

theorem save_tasks_replaces_in_place:
  "save_tasks tasks tasks_file fs = fs(tasks_file := Json_file tasks)
   \<and> load_tasks tasks_file (save_tasks tasks tasks_file fs) = (tasks, [])
   \<and> save_trace tasks tasks_file fs =
       [fs, fs(tasks_file := Empty_file), save_tasks tasks tasks_file fs]
   \<and> load_tasks tasks_file (save_trace tasks tasks_file fs ! 1) =
       ([], [Line (''Error: '' @ tasks_file @ '' is corrupted. Creating a new tasks file.'')])
   \<and> save_atomic tasks tasks_file fs = (fs tasks_file = Empty_file)"
  by (auto simp: save_tasks_eq load_tasks_def save_trace_def open_w_def json_dump_def
        save_atomic_def)


text \<open>
  Atomicity fails when the file held a collection: the empty file seen during
  the save is neither that collection nor the new one.
\<close>

theorem save_tasks_not_atomic_counterexample:
  "\<not> save_atomic [buy_milk\<lparr>status := ''cancelled''\<rparr>] DEFAULT_TASKS_FILE (store [buy_milk])"
  by (simp add: save_atomic_def save_trace_def open_w_def json_dump_def store_def)

section \<open>Adding\<close>

lemma lower_medium: "lower ul ''medium'' = ''medium''"
  by (simp add: lower_def is_ascii_def lower_char_def)

lemma medium_in_PRIORITIES: "''medium'' \<in> set PRIORITIES"
  by (simp add: PRIORITIES_def)

lemma add_task_eq:
  "add_task ul uuid4 now ti de pr du tg f fs =
     (take 8 uuid4,
      snd (load_tasks f fs) @
        (if lower ul pr \<in> set PRIORITIES then []
         else [Line (''Invalid priority: '' @ pr @ ''. Using 'medium' instead.'')]) @
        [Line (''Task added with ID: '' @ take 8 uuid4)],
      fs(f := Json_file (fst (load_tasks f fs) @
        [\<lparr> id' = take 8 uuid4, title = ti, description = de,
            priority = (if lower ul pr \<in> set PRIORITIES then lower ul pr else ''medium''),
            status = ''pending'', created_at = now, due_date = du, completed_at = None,
            tags = (case tg of None \<Rightarrow> [] | Some ts \<Rightarrow> ts) \<rparr>])))"
  by (simp add: add_task_def case_prod_unfold Let_def save_tasks_eq lower_medium)

text \<open>
  C9. \<open>add_task\<close> always returns an id, the first eight characters of the UUID. The task
  it appends to the loaded collection and saves has status \<open>pending\<close>, no completion
  time, the current time as creation time and a priority of the enumeration: the
  lowercase of the one supplied, or \<open>medium\<close>, with a warning printed, when that is not
  in the enumeration. Loading the file afterwards gives the collection with the new task
  at its end.
\<close>

theorem add_task_never_rejects:
  "add_task ul uuid4 now ti de pr du tg f fs =
     (take 8 uuid4,
      snd (load_tasks f fs) @
        (if lower ul pr \<in> set PRIORITIES then []
         else [Line (''Invalid priority: '' @ pr @ ''. Using 'medium' instead.'')]) @
        [Line (''Task added with ID: '' @ take 8 uuid4)],
      fs(f := Json_file (fst (load_tasks f fs) @
        [\<lparr> id' = take 8 uuid4, title = ti, description = de,
            priority = (if lower ul pr \<in> set PRIORITIES then lower ul pr else ''medium''),
            status = ''pending'', created_at = now, due_date = du, completed_at = None,
            tags = (case tg of None \<Rightarrow> [] | Some ts \<Rightarrow> ts) \<rparr>])))
   \<and> (if lower ul pr \<in> set PRIORITIES then lower ul pr else ''medium'') \<in> set PRIORITIES
   \<and> fst (load_tasks f (snd (snd (add_task ul uuid4 now ti de pr du tg f fs)))) =
       fst (load_tasks f fs) @
        [\<lparr> id' = fst (add_task ul uuid4 now ti de pr du tg f fs), title = ti, description = de,
            priority = (if lower ul pr \<in> set PRIORITIES then lower ul pr else ''medium''),
            status = ''pending'', created_at = now, due_date = du, completed_at = None,
            tags = (case tg of None \<Rightarrow> [] | Some ts \<Rightarrow> ts) \<rparr>]"
proof -
  have a: "(if lower ul pr \<in> set PRIORITIES then lower ul pr else ''medium'') \<in> set PRIORITIES"
    by (simp add: medium_in_PRIORITIES)
  have b: "load_tasks f (fs(f := Json_file ts)) = (ts, [])" for ts
    by (simp add: load_tasks_def)
  show ?thesis
    using a by (simp only: add_task_eq b fst_conv snd_conv simp_thms)
qed


theorem add_task_never_rejects_witness:
  "add_task sample_lower uuid_a ''2024-05-01 09:00:00'' ''X'' '''' ''urgent'' None None DEFAULT_TASKS_FILE no_files =
     (''1b9d6bcd'',
      [Line ''Invalid priority: urgent. Using 'medium' instead.'',
       Line ''Task added with ID: 1b9d6bcd''],
      store [\<lparr> id' = ''1b9d6bcd'', title = ''X'', description = '''', priority = ''medium'',
               status = ''pending'', created_at = ''2024-05-01 09:00:00'', due_date = None,
               completed_at = None, tags = [] \<rparr>])"
proof -
  have l: "lower sample_lower ''urgent'' \<notin> set PRIORITIES"
    by (simp add: PRIORITIES_def lower_def is_ascii_def lower_char_def)
  have e: "load_tasks DEFAULT_TASKS_FILE no_files = ([], [])"
    by (simp add: load_tasks_def no_files_def)
  have u: "take 8 uuid_a = ''1b9d6bcd''"
    by (simp add: uuid_a_def)
  show ?thesis
    using add_task_never_rejects [of sample_lower uuid_a "''2024-05-01 09:00:00''" "''X''" "''''" "''urgent''"
        None None DEFAULT_TASKS_FILE no_files]
    by (simp add: l e u store_def)
qed

lemma is_uuid4_a: "is_uuid4 uuid_a"
  by code_simp

lemma is_uuid4_b: "is_uuid4 uuid_b"
  by code_simp

text \<open>
  C3. Two calls of \<open>add_task\<close> whose UUIDs differ but share their first eight characters
  return the same id, and the saved collection holds two tasks with that id.
\<close>

theorem add_task_repeats_id:
  "is_uuid4 uuid_a \<and> is_uuid4 uuid_b \<and> uuid_a \<noteq> uuid_b
   \<and> add_task sample_lower uuid_a ''2024-05-01 09:00:00'' ''Buy milk'' '''' ''high'' None (Some [''home''])
         DEFAULT_TASKS_FILE no_files =
       (''1b9d6bcd'', [Line ''Task added with ID: 1b9d6bcd''],
        store [buy_milk\<lparr>id' := ''1b9d6bcd''\<rparr>])
   \<and> add_task sample_lower uuid_b ''2024-05-01 09:00:07'' ''Pay rent'' '''' ''high'' None (Some [''home''])
         DEFAULT_TASKS_FILE (store [buy_milk\<lparr>id' := ''1b9d6bcd''\<rparr>]) =
       (''1b9d6bcd'', [Line ''Task added with ID: 1b9d6bcd''],
        store [buy_milk\<lparr>id' := ''1b9d6bcd''\<rparr>,
               buy_milk\<lparr>id' := ''1b9d6bcd'', title := ''Pay rent'',
                 created_at := ''2024-05-01 09:00:07''\<rparr>])
   \<and> \<not> distinct (map id' [buy_milk\<lparr>id' := ''1b9d6bcd''\<rparr>,
               buy_milk\<lparr>id' := ''1b9d6bcd'', title := ''Pay rent'',
                 created_at := ''2024-05-01 09:00:07''\<rparr>])"
proof -
  have l: "lower sample_lower ''high'' = ''high''" "''high'' \<in> set PRIORITIES"
    by (simp_all add: PRIORITIES_def lower_def is_ascii_def lower_char_def)
  have e: "load_tasks DEFAULT_TASKS_FILE no_files = ([], [])"
    "load_tasks DEFAULT_TASKS_FILE (no_files(DEFAULT_TASKS_FILE := Json_file ts)) = (ts, [])" for ts
    by (simp_all add: load_tasks_def no_files_def)
  have u: "take 8 uuid_a = ''1b9d6bcd''" "take 8 uuid_b = ''1b9d6bcd''" "uuid_a \<noteq> uuid_b"
    by (simp_all add: uuid_a_def uuid_b_def)
  show ?thesis
    by (simp add: is_uuid4_a is_uuid4_b add_task_eq l e u store_def buy_milk_def)
qed

section \<open>Listing\<close>

lemma sorted_reverse_descending:
  "sorted_wrt (\<lambda>a b. k b \<le> k a) (sorted_reverse k xs)"
proof -
  have "sorted (map k (sort_key k (rev xs)))"
    by (rule sorted_sort_key)
  then have "sorted_wrt (\<lambda>a b. k a \<le> k b) (sort_key k (rev xs))"
    by (simp add: sorted_map)
  then show ?thesis
    by (simp add: sorted_reverse_def sorted_wrt_rev)
qed

lemma mset_sorted_reverse: "mset (sorted_reverse k xs) = mset xs"
  by (simp add: sorted_reverse_def)

lemma sorted_reverse_stable:
  "filter (\<lambda>y. k y = c) (sorted_reverse k xs) = filter (\<lambda>y. k y = c) xs"
  by (simp add: sorted_reverse_def rev_filter [symmetric] sort_key_stable)


lemma sort_tasks_priority: "sort_tasks ''priority'' tasks = sorted_reverse priority_key tasks"
  by (simp add: sort_tasks_def)

lemma same_priority_same_key:
  "filter (\<lambda>x. priority x = p) ys =
   filter (\<lambda>x. priority x = p)
     (filter (\<lambda>x. priority_key x = (case priority_order p of None \<Rightarrow> 0 | Some i \<Rightarrow> i)) ys)"
  by (induction ys) (auto simp: priority_key_def)

lemma sorted_reverse_keeps_equal_priorities:
  "filter (\<lambda>x. priority x = p) (sorted_reverse priority_key tasks) =
   filter (\<lambda>x. priority x = p) tasks"
  using same_priority_same_key [of p "sorted_reverse priority_key tasks"]
    same_priority_same_key [of p tasks]
  by (simp only: sorted_reverse_stable)

lemma priority_key_values:
  "map (\<lambda>p. priority_key (with_priority i p)) [''low'', ''medium'', ''high'', ''critical''] =
     [0, 1, 2, 3]"
  by (simp add: priority_key_def priority_order_def PRIORITIES_def with_priority_def)

lemma priority_sort_example:
  "sort_tasks ''priority''
     [with_priority ''t1'' ''low'', with_priority ''t2'' ''critical'',
      with_priority ''t3'' ''medium'', with_priority ''t4'' ''critical''] =
     [with_priority ''t2'' ''critical'', with_priority ''t4'' ''critical'',
      with_priority ''t3'' ''medium'', with_priority ''t1'' ''low'']"
  by (simp add: sort_tasks_def sorted_reverse_def sort_key_def priority_key_def priority_order_def
        PRIORITIES_def with_priority_def)

lemma select_tasks_no_filter:
  "select_tasks ul None None None sort_by tasks = Inr (sort_tasks sort_by tasks)"
  by (simp add: select_tasks_def filter_status_def filter_priority_def filter_tag_def)

text \<open>
  C7. Sorting by priority puts the tasks in descending order of their rank, where
  \<open>low\<close>, \<open>medium\<close>, \<open>high\<close> and \<open>critical\<close> have the ranks 0, 1, 2 and 3; the result
  has the same tasks, and the tasks of any one rank, and so of any one priority, are in
  the order they had before. Tasks with the priorities low, critical, medium, critical
  come out as the two critical ones in their order, then the medium, then the low one.
\<close>

theorem priority_sort_descending_stable:
  "select_tasks ul None None None ''priority'' tasks = Inr (sort_tasks ''priority'' tasks)
   \<and> sorted_wrt (\<lambda>a b. priority_key b \<le> priority_key a) (sort_tasks ''priority'' tasks)
   \<and> mset (sort_tasks ''priority'' tasks) = mset tasks
   \<and> filter (\<lambda>x. priority_key x = k) (sort_tasks ''priority'' tasks) =
       filter (\<lambda>x. priority_key x = k) tasks
   \<and> filter (\<lambda>x. priority x = p) (sort_tasks ''priority'' tasks) =
       filter (\<lambda>x. priority x = p) tasks
   \<and> map (\<lambda>p. priority_key (with_priority i p)) [''low'', ''medium'', ''high'', ''critical''] =
       [0, 1, 2, 3]
   \<and> sort_tasks ''priority''
       [with_priority ''t1'' ''low'', with_priority ''t2'' ''critical'',
        with_priority ''t3'' ''medium'', with_priority ''t4'' ''critical''] =
       [with_priority ''t2'' ''critical'', with_priority ''t4'' ''critical'',
        with_priority ''t3'' ''medium'', with_priority ''t1'' ''low'']"
  by (simp only: select_tasks_no_filter sort_tasks_priority sorted_reverse_descending
        mset_sorted_reverse sorted_reverse_stable sorted_reverse_keeps_equal_priorities
        priority_key_values priority_sort_example [unfolded sort_tasks_priority] simp_thms)



lemma filter_status_invalid:
  "s \<noteq> [] \<Longrightarrow> lower ul s \<notin> set STATUSES \<Longrightarrow>
   filter_status ul (Some s) tasks = Inl (Line (''Invalid status: '' @ s))"
  by (simp add: filter_status_def)

lemma filter_priority_invalid:
  "p \<noteq> [] \<Longrightarrow> lower ul p \<notin> set PRIORITIES \<Longrightarrow>
   filter_priority ul (Some p) tasks = Inl (Line (''Invalid priority: '' @ p))"
  by (simp add: filter_priority_def)

lemma filter_status_Inl_Line: "filter_status ul st tasks = Inl e \<Longrightarrow> \<exists>m. e = Line m"
  by (auto simp: filter_status_def split: option.splits if_splits)

lemma load_tasks_prints_lines: "Grid h rows \<notin> set (snd (load_tasks f fs))"
  by (simp add: load_tasks_def split: file_state.splits)

lemma list_tasks_eq:
  "list_tasks ul st pr tg sb f fs =
     snd (load_tasks f fs) @
       (case select_tasks ul st pr tg sb (fst (load_tasks f fs)) of
          Inl e \<Rightarrow> [e]
        | Inr shown \<Rightarrow>
            if shown = [] then [Line ''No tasks found'']
            else [Grid headers (map table_row shown), Total_line (length shown)])"
  by (simp add: list_tasks_def case_prod_unfold Let_def)

text \<open>
  C6 (amended). A status filter that is not empty and whose lowercase form is not a
  status makes \<open>list_tasks\<close> print the error line and nothing else after loading: no table.
  The same holds for such a priority filter, where the error line is the one for the
  status when the status filter is rejected too. An empty string as a filter is treated
  as no filter.
\<close>

theorem invalid_filter_rejects_query:
  "(s \<noteq> [] \<and> lower ul s \<notin> set STATUSES \<longrightarrow>
      select_tasks ul (Some s) pr tg sb tasks = Inl (Line (''Invalid status: '' @ s))
      \<and> list_tasks ul (Some s) pr tg sb f fs =
          snd (load_tasks f fs) @ [Line (''Invalid status: '' @ s)]
      \<and> Grid h rows \<notin> set (list_tasks ul (Some s) pr tg sb f fs))
   \<and> (p \<noteq> [] \<and> lower ul p \<notin> set PRIORITIES \<longrightarrow>
      (\<exists>m. select_tasks ul st (Some p) tg sb tasks = Inl (Line m))
      \<and> (\<exists>m. list_tasks ul st (Some p) tg sb f fs = snd (load_tasks f fs) @ [Line m])
      \<and> (filter_status ul st tasks = Inr tasks1 \<longrightarrow>
            select_tasks ul st (Some p) tg sb tasks = Inl (Line (''Invalid priority: '' @ p)))
      \<and> Grid h rows \<notin> set (list_tasks ul st (Some p) tg sb f fs))
   \<and> select_tasks ul (Some []) pr tg sb tasks = select_tasks ul None pr tg sb tasks
   \<and> select_tasks ul st (Some []) tg sb tasks = select_tasks ul st None tg sb tasks"
proof -
  have a: "select_tasks ul (Some s) pr tg sb ts = Inl (Line (''Invalid status: '' @ s))"
    if "s \<noteq> []" "lower ul s \<notin> set STATUSES" for ts
    using that by (simp add: select_tasks_def filter_status_invalid)
  have b: "\<exists>m. select_tasks ul st (Some p) tg sb ts = Inl (Line m)"
    if "p \<noteq> []" "lower ul p \<notin> set PRIORITIES" for ts
  proof (cases "filter_status ul st ts")
    case (Inl e)
    then show ?thesis
      using filter_status_Inl_Line [OF Inl] by (auto simp: select_tasks_def)
  next
    case (Inr ts1)
    then show ?thesis
      using that by (simp add: select_tasks_def filter_priority_invalid)
  qed
  have c: "select_tasks ul st (Some p) tg sb tasks = Inl (Line (''Invalid priority: '' @ p))"
    if "p \<noteq> []" "lower ul p \<notin> set PRIORITIES" "filter_status ul st tasks = Inr tasks1"
    using that by (simp add: select_tasks_def filter_priority_invalid)
  have d: "\<exists>m. list_tasks ul st (Some p) tg sb f fs = snd (load_tasks f fs) @ [Line m]"
    if "p \<noteq> []" "lower ul p \<notin> set PRIORITIES"
    using b [OF that, of "fst (load_tasks f fs)"] by (auto simp: list_tasks_eq)
  have e: "select_tasks ul (Some []) pr tg sb tasks = select_tasks ul None pr tg sb tasks"
    by (simp add: select_tasks_def filter_status_def)
  have g: "select_tasks ul st (Some []) tg sb tasks = select_tasks ul st None tg sb tasks"
    by (simp add: select_tasks_def filter_priority_def split: sum.splits)
  show ?thesis
    using a c d b e g load_tasks_prints_lines [of h rows f fs]
    by (auto simp: list_tasks_eq)
qed


theorem invalid_filter_rejects_query_witness:
  "''bogus'' \<noteq> [] \<and> lower sample_lower ''bogus'' \<notin> set STATUSES
   \<and> ''urgent'' \<noteq> [] \<and> lower sample_lower ''urgent'' \<notin> set PRIORITIES
   \<and> filter_status sample_lower (Some ''pending'') [buy_milk] = Inr [buy_milk]
   \<and> list_tasks sample_lower (Some ''bogus'') None None ''created_at'' DEFAULT_TASKS_FILE (store [buy_milk]) =
       [Line ''Invalid status: bogus'']
   \<and> select_tasks sample_lower (Some ''pending'') (Some ''urgent'') None ''created_at'' [buy_milk] =
       Inl (Line ''Invalid priority: urgent'')"
proof -
  have h1: "''bogus'' \<noteq> [] \<and> lower sample_lower ''bogus'' \<notin> set STATUSES"
    by (simp add: STATUSES_def lower_def is_ascii_def lower_char_def)
  have h2: "''urgent'' \<noteq> [] \<and> lower sample_lower ''urgent'' \<notin> set PRIORITIES"
    by (simp add: PRIORITIES_def lower_def is_ascii_def lower_char_def)
  have h3: "filter_status sample_lower (Some ''pending'') [buy_milk] = Inr [buy_milk]"
    by (simp add: filter_status_def STATUSES_def lower_def is_ascii_def lower_char_def buy_milk_def)
  have l: "snd (load_tasks DEFAULT_TASKS_FILE (store [buy_milk])) = []"
    by (simp add: load_tasks_def store_def)
  show ?thesis
    using h1 h2 h3 l
      invalid_filter_rejects_query [of "''bogus''" sample_lower None None "''created_at''" "[buy_milk]"
        DEFAULT_TASKS_FILE "store [buy_milk]" headers "[]" "''urgent''" "Some ''pending''"
        "[buy_milk]"]
    by simp
qed


text \<open>
  Rejection fails for the empty string: it is no status, and the query with it
  as status filter is not rejected but lists the collection.
\<close>

theorem empty_filter_counterexample:
  "[] \<notin> set STATUSES
   \<and> list_tasks sample_lower (Some []) None None ''created_at'' DEFAULT_TASKS_FILE (store [buy_milk]) =
       [Grid headers [table_row buy_milk], Total_line 1]"
  by (simp add: STATUSES_def list_tasks_eq load_tasks_def store_def select_tasks_def
        filter_status_def filter_priority_def filter_tag_def sort_tasks_def)






end
